theory Spec2Isabelle
  imports Main "HOL-Library.Sublist"
begin

section \<open>Values, settings objects and the collaborators of the component\<close>

text \<open>
  The global settings form (settings/global/component.ts) is an event-driven component:
  every method runs to completion on the single UI thread, and the replies of the
  settings service and of the conflict dialog arrive later as separate events. Each
  method is a function from the component state to the component state; the requests it
  makes to its collaborators are appended, in order, to the list \<open>calls\<close>.
  The private members of the source end in an underscore, which a constant's name cannot;
  they keep their names without it (\<^verbatim>\<open>onSave_\<close> is \<open>onSave\<close>).
\<close>

text \<open>Run-time values held by form controls and by the properties of a settings object.\<close>

datatype jsval =
    JUndefined
  | JNull
  | JBool bool
  | JNum int
  | JStr string
  | JArr "jsval list"
  | JObj "(string \<times> jsval) list"

text \<open>
  A settings object. The source builds such objects with some properties left out
  (\<^verbatim>\<open>{} as GlobalSettings\<close>, the six-property literal of \<^verbatim>\<open>onFormChange_\<close>), so every
  property is optional: \<open>None\<close> is a property the object does not have, \<open>Some JUndefined\<close>
  a property that is there and holds \<^verbatim>\<open>undefined\<close>.
\<close>

record GlobalSettings =
  itemsPerPage :: "jsval option"
  labelsLimit :: "jsval option"
  clusterName :: "jsval option"
  logsAutoRefreshTimeInterval :: "jsval option"
  resourceAutoRefreshTimeInterval :: "jsval option"
  disableAccessDeniedNotifications :: "jsval option"
  defaultNamespace :: "jsval option"
  namespaceFallbackList :: "jsval option"

text \<open>The object \<^verbatim>\<open>{} as GlobalSettings\<close>.\<close>

definition empty_settings :: GlobalSettings where
  "empty_settings =
     \<lparr>itemsPerPage = None, labelsLimit = None, clusterName = None,
      logsAutoRefreshTimeInterval = None, resourceAutoRefreshTimeInterval = None,
      disableAccessDeniedNotifications = None, defaultNamespace = None,
      namespaceFallbackList = None\<rparr>"

text \<open>Reading a property: a property the object does not have reads as \<^verbatim>\<open>undefined\<close>.\<close>

definition property :: "jsval option \<Rightarrow> jsval" where
  "property p = (case p of None \<Rightarrow> JUndefined | Some v \<Rightarrow> v)"

text \<open>
  lodash's \<^verbatim>\<open>isEqual\<close> on two plain objects: the same own properties, holding deeply equal
  values. On the representation above that is equality of the two records.
\<close>

definition isEqual :: "GlobalSettings \<Rightarrow> GlobalSettings \<Rightarrow> bool" where
  "isEqual a b = (a = b)"

text \<open>
  \<^verbatim>\<open>String.prototype.indexOf\<close>: the position of the first occurrence of \<open>p\<close> in \<open>s\<close>,
  or \<open>-1\<close> when there is none.
\<close>

primrec indexOfFrom :: "string \<Rightarrow> string \<Rightarrow> nat \<Rightarrow> int" where
  "indexOfFrom [] p i = (if p = [] then int i else - 1)"
| "indexOfFrom (x # xs) p i =
     (if prefix p (x # xs) then int i else indexOfFrom xs p (Suc i))"

definition indexOf :: "string \<Rightarrow> string \<Rightarrow> int" where
  "indexOf s p = indexOfFrom s p 0"

text \<open>
  \<^verbatim>\<open>Array.prototype.indexOf\<close> with a text \<open>p\<close> as its argument: the position of the first
  element that is strictly equal to \<open>p\<close>, that is the text \<open>p\<close> itself, or \<open>-1\<close>.
\<close>

primrec arrayIndexOfFrom :: "jsval list \<Rightarrow> string \<Rightarrow> nat \<Rightarrow> int" where
  "arrayIndexOfFrom [] p i = - 1"
| "arrayIndexOfFrom (x # xs) p i =
     (if x = JStr p then int i else arrayIndexOfFrom xs p (Suc i))"

definition arrayIndexOf :: "jsval list \<Rightarrow> string \<Rightarrow> int" where
  "arrayIndexOf xs p = arrayIndexOfFrom xs p 0"

text \<open>
  The call \<^verbatim>\<open>v.indexOf(p)\<close> on a value \<open>v\<close> of type \<^verbatim>\<open>any\<close>. Texts and arrays have the
  method. On \<^verbatim>\<open>null\<close> and \<^verbatim>\<open>undefined\<close> the property access raises a \<^verbatim>\<open>TypeError\<close>; a
  boolean, a number and an object (a parsed JSON object, the \<^verbatim>\<open>ProgressEvent\<close> of a network
  failure) have no such method, and calling it raises a \<^verbatim>\<open>TypeError\<close> as well.
\<close>

datatype failure = TypeError

definition valueIndexOf :: "jsval \<Rightarrow> string \<Rightarrow> failure + int" where
  "valueIndexOf v p =
     (case v of
        JStr s \<Rightarrow> Inr (indexOf s p)
      | JArr xs \<Rightarrow> Inr (arrayIndexOf xs p)
      | _ \<Rightarrow> Inl TypeError)"

text \<open>The controls of the form (\<^verbatim>\<open>enum Controls\<close>).\<close>

datatype Controls =
    ClusterName
  | ItemsPerPage
  | LabelsLimit
  | LogsAutorefreshInterval
  | ResourceAutorefreshInterval
  | DisableAccessDeniedNotification
  | NamespaceSettings

text \<open>
  The names of the two entries of the namespace control's value. They are declared in
  ./namespace/component, which is not part of the source, and are taken as a parameter.
\<close>

record NamespaceControls =
  DefaultNamespace :: string
  FallbackList :: string

text \<open>
  The settings service, as far as the component reads it: the values its eight accessors
  return and its initialisation flag. The service changes them when a load succeeds.
\<close>

record GlobalSettingsService =
  getItemsPerPage :: jsval
  getLabelsLimit :: jsval
  getClusterName :: jsval
  getLogsAutoRefreshTimeInterval :: jsval
  getResourceAutoRefreshTimeInterval :: jsval
  getDisableAccessDeniedNotifications :: jsval
  getDefaultNamespace :: jsval
  getNamespaceFallbackList :: jsval
  serviceInitialized :: bool

text \<open>
  The helper service (./service) is not part of the source. The component assigns to its
  \<^verbatim>\<open>settings\<close> property, calls \<^verbatim>\<open>reset()\<close> and subscribes to \<^verbatim>\<open>onSettingsChange\<close>. Its
  behaviour is a parameter: for a helper state of type \<open>'h\<close>, what an assignment and a
  reset make of the state and which settings objects they announce on
  \<^verbatim>\<open>onSettingsChange\<close> while they run, and what a new subscriber is sent at once.
\<close>

record 'h SettingsHelperService =
  assign :: "GlobalSettings \<Rightarrow> 'h \<Rightarrow> 'h \<times> GlobalSettings list"
  reset :: "'h \<Rightarrow> 'h \<times> GlobalSettings list"
  replay :: "'h \<Rightarrow> GlobalSettings list"

text \<open>
  Modelled from the spec: the helper service of ./service, which is missing from the
  source. The spec calls it a live helper state object into which the edited values are
  mirrored on every change, and which reload clears: an assignment makes the assigned
  object the helper state and announces it, a reset empties the state.
\<close>

definition mirror_helper :: "GlobalSettings SettingsHelperService" where
  "mirror_helper =
     \<lparr>assign = (\<lambda>s h. (s, [s])),
      reset = (\<lambda>h. (empty_settings, [])),
      replay = (\<lambda>h. [])\<rparr>"

text \<open>
  Another behaviour the parameter admits: a helper that merges an assigned object into its
  state, \<^verbatim>\<open>{...state, ...assigned}\<close>, and announces the merged state. The source points to
  such a helper: \<^verbatim>\<open>onFormChange_\<close> assigns an object without the two namespace properties,
  although \<^verbatim>\<open>save\<close> sends the announced settings as a whole.
\<close>

definition spread :: "GlobalSettings \<Rightarrow> GlobalSettings \<Rightarrow> GlobalSettings" where
  "spread a b =
     \<lparr>itemsPerPage = (case itemsPerPage b of None \<Rightarrow> itemsPerPage a | Some v \<Rightarrow> Some v),
      labelsLimit = (case labelsLimit b of None \<Rightarrow> labelsLimit a | Some v \<Rightarrow> Some v),
      clusterName = (case clusterName b of None \<Rightarrow> clusterName a | Some v \<Rightarrow> Some v),
      logsAutoRefreshTimeInterval =
        (case logsAutoRefreshTimeInterval b of
           None \<Rightarrow> logsAutoRefreshTimeInterval a | Some v \<Rightarrow> Some v),
      resourceAutoRefreshTimeInterval =
        (case resourceAutoRefreshTimeInterval b of
           None \<Rightarrow> resourceAutoRefreshTimeInterval a | Some v \<Rightarrow> Some v),
      disableAccessDeniedNotifications =
        (case disableAccessDeniedNotifications b of
           None \<Rightarrow> disableAccessDeniedNotifications a | Some v \<Rightarrow> Some v),
      defaultNamespace =
        (case defaultNamespace b of None \<Rightarrow> defaultNamespace a | Some v \<Rightarrow> Some v),
      namespaceFallbackList =
        (case namespaceFallbackList b of
           None \<Rightarrow> namespaceFallbackList a | Some v \<Rightarrow> Some v)\<rparr>"

definition merging_helper :: "GlobalSettings SettingsHelperService" where
  "merging_helper =
     \<lparr>assign = (\<lambda>s h. (spread h s, [spread h s])),
      reset = (\<lambda>h. (empty_settings, [])),
      replay = (\<lambda>h. [])\<rparr>"

text \<open>
  The error of a failed save. Of the framework's \<^verbatim>\<open>HttpErrorResponse\<close> the component
  reads only \<^verbatim>\<open>error\<close>, the body of the reply, whose type is \<^verbatim>\<open>any\<close>: the text the backend
  sent, \<^verbatim>\<open>null\<close> for a reply without a body, the parsed value when the body is JSON, an
  event object when the network failed. An absent error (\<^verbatim>\<open>null\<close>, \<^verbatim>\<open>undefined\<close>), for which
  the guard \<^verbatim>\<open>err &&\<close> is there, is \<open>None\<close>.
\<close>

record HttpErrorResponse =
  error :: jsval

text \<open>The requests the component makes to its collaborators.\<close>

datatype call =
    FormReset
  | FormSetValue Controls jsval bool
  | HelperAssign GlobalSettings
  | HelperReset
  | ServiceCanI
  | ServiceLoad
  | ServiceSave GlobalSettings
  | ServiceOnSettingsUpdateNext
  | TitleUpdate
  | DialogOpen

text \<open>
  What is handed to \<^verbatim>\<open>onSave_\<close>: the saved settings, the boolean of the error path, or
  \<^verbatim>\<open>undefined\<close> when the dialog is dismissed without an answer.
\<close>

datatype save_result = Saved GlobalSettings | Flag bool | Undefined

text \<open>
  The observable returned by \<^verbatim>\<open>onSaveError_\<close>: \<^verbatim>\<open>of(value)\<close>, which delivers at once, or
  the dialog's \<^verbatim>\<open>afterClosed()\<close>, which delivers when the user closes the dialog.
\<close>

datatype 'a Observable = Of 'a | AfterClosed

section \<open>The component\<close>

record 'h GlobalSettingsComponent =
  settings :: GlobalSettings
  hasLoadError :: bool
  form :: "Controls \<Rightarrow> jsval"
  settingsService :: GlobalSettingsService
  settingsHelperService :: 'h
  calls :: "call list"

definition concurrentChangeErr :: string where
  "concurrentChangeErr = ''settings changed since last reload''"

definition issue :: "call \<Rightarrow> 'h GlobalSettingsComponent \<Rightarrow> 'h GlobalSettingsComponent" where
  "issue x c = c\<lparr>calls := calls c @ [x]\<rparr>"

text \<open>The requests made between an earlier state and a later one.\<close>

definition issued ::
  "'h GlobalSettingsComponent \<Rightarrow> 'h GlobalSettingsComponent \<Rightarrow> call list" where
  "issued c c' = drop (length (calls c)) (calls c')"

definition externalSettings :: "'h GlobalSettingsComponent \<Rightarrow> GlobalSettings" where
  "externalSettings c =
     \<lparr>itemsPerPage = Some (getItemsPerPage (settingsService c)),
      labelsLimit = Some (getLabelsLimit (settingsService c)),
      clusterName = Some (getClusterName (settingsService c)),
      logsAutoRefreshTimeInterval = Some (getLogsAutoRefreshTimeInterval (settingsService c)),
      resourceAutoRefreshTimeInterval =
        Some (getResourceAutoRefreshTimeInterval (settingsService c)),
      disableAccessDeniedNotifications =
        Some (getDisableAccessDeniedNotifications (settingsService c)),
      defaultNamespace = Some (getDefaultNamespace (settingsService c)),
      namespaceFallbackList = Some (getNamespaceFallbackList (settingsService c))\<rparr>"

text \<open>
  The subscription \<^verbatim>\<open>onSettingsChange.subscribe(s => (this.settings = s))\<close>: every
  announced object replaces the component's settings.
\<close>

definition announce ::
  "GlobalSettings list \<Rightarrow> 'h GlobalSettingsComponent \<Rightarrow> 'h GlobalSettingsComponent" where
  "announce out c = foldl (\<lambda>c' s. c'\<lparr>settings := s\<rparr>) c out"

text \<open>The assignment \<^verbatim>\<open>this.settingsHelperService_.settings = s\<close>.\<close>

definition helper_assign ::
  "'h SettingsHelperService \<Rightarrow> GlobalSettings \<Rightarrow> 'h GlobalSettingsComponent
     \<Rightarrow> 'h GlobalSettingsComponent" where
  "helper_assign H s c =
     announce (snd (assign H s (settingsHelperService c)))
       (issue (HelperAssign s)
          (c\<lparr>settingsHelperService := fst (assign H s (settingsHelperService c))\<rparr>))"

text \<open>The call \<^verbatim>\<open>this.settingsHelperService_.reset()\<close>.\<close>

definition helper_reset ::
  "'h SettingsHelperService \<Rightarrow> 'h GlobalSettingsComponent \<Rightarrow> 'h GlobalSettingsComponent" where
  "helper_reset H c =
     announce (snd (reset H (settingsHelperService c)))
       (issue HelperReset
          (c\<lparr>settingsHelperService := fst (reset H (settingsHelperService c))\<rparr>))"

text \<open>The object literal of \<^verbatim>\<open>onFormChange_\<close>, built from the values of the controls.\<close>

definition formSettings :: "(Controls \<Rightarrow> jsval) \<Rightarrow> GlobalSettings" where
  "formSettings f =
     \<lparr>itemsPerPage = Some (f ItemsPerPage),
      labelsLimit = Some (f LabelsLimit),
      clusterName = Some (f ClusterName),
      logsAutoRefreshTimeInterval = Some (f LogsAutorefreshInterval),
      resourceAutoRefreshTimeInterval = Some (f ResourceAutorefreshInterval),
      disableAccessDeniedNotifications = Some (f DisableAccessDeniedNotification),
      defaultNamespace = None,
      namespaceFallbackList = None\<rparr>"

definition onFormChange ::
  "'h SettingsHelperService \<Rightarrow> 'h GlobalSettingsComponent \<Rightarrow> 'h GlobalSettingsComponent" where
  "onFormChange H c = helper_assign H (formSettings (form c)) c"

text \<open>
  The form group of the framework. \<^verbatim>\<open>setValue\<close> stores the value in the control and,
  unless \<^verbatim>\<open>emitEvent\<close> is false, announces a value change, on which \<^verbatim>\<open>onFormChange_\<close>
  runs (it is subscribed to \<^verbatim>\<open>valueChanges\<close> in \<^verbatim>\<open>ngOnInit\<close>). \<^verbatim>\<open>reset()\<close>, called without
  a value and without options as in \<^verbatim>\<open>reload\<close>, sets every control to \<^verbatim>\<open>null\<close> and then
  announces one value change of the group.
\<close>

definition valueChanged ::
  "'h SettingsHelperService \<Rightarrow> Controls \<Rightarrow> jsval \<Rightarrow> 'h GlobalSettingsComponent
     \<Rightarrow> 'h GlobalSettingsComponent" where
  "valueChanged H k v c = onFormChange H (c\<lparr>form := (form c)(k := v)\<rparr>)"

definition setValue ::
  "'h SettingsHelperService \<Rightarrow> Controls \<Rightarrow> jsval \<Rightarrow> bool \<Rightarrow> 'h GlobalSettingsComponent
     \<Rightarrow> 'h GlobalSettingsComponent" where
  "setValue H k v emitEvent c =
     (if emitEvent then valueChanged H k v (issue (FormSetValue k v emitEvent) c)
      else (issue (FormSetValue k v emitEvent) c)\<lparr>form := (form c)(k := v)\<rparr>)"

definition form_reset ::
  "'h SettingsHelperService \<Rightarrow> 'h GlobalSettingsComponent \<Rightarrow> 'h GlobalSettingsComponent" where
  "form_reset H c = onFormChange H ((issue FormReset c)\<lparr>form := (\<lambda>k. JNull)\<rparr>)"

text \<open>
  \<^verbatim>\<open>load_\<close> asks the settings service whether the user may read the settings and asks it
  to load them. Both replies arrive later: see \<open>react\<close>.
\<close>

definition load :: "'h GlobalSettingsComponent \<Rightarrow> 'h GlobalSettingsComponent" where
  "load c = issue ServiceLoad (issue ServiceCanI c)"

definition isInitialized :: "'h GlobalSettingsComponent \<Rightarrow> bool" where
  "isInitialized c = serviceInitialized (settingsService c)"

definition reload ::
  "'h SettingsHelperService \<Rightarrow> 'h GlobalSettingsComponent \<Rightarrow> 'h GlobalSettingsComponent" where
  "reload H c = load (helper_reset H (form_reset H c))"

definition canSave :: "'h GlobalSettingsComponent \<Rightarrow> bool" where
  "canSave c = (\<not> isEqual (settings c) (externalSettings c) \<and> \<not> hasLoadError c)"

text \<open>\<^verbatim>\<open>save\<close> sends the component's settings to the service; the reply arrives later.\<close>

definition save :: "'h GlobalSettingsComponent \<Rightarrow> 'h GlobalSettingsComponent" where
  "save c = issue (ServiceSave (settings c)) c"

text \<open>The body of the \<^verbatim>\<open>tap\<close> in \<^verbatim>\<open>save\<close>, run when the service reports success.\<close>

definition saveTap :: "'h GlobalSettingsComponent \<Rightarrow> 'h GlobalSettingsComponent" where
  "saveTap c = issue ServiceOnSettingsUpdateNext (issue TitleUpdate (load c))"

definition onSave ::
  "'h SettingsHelperService \<Rightarrow> save_result \<Rightarrow> 'h GlobalSettingsComponent
     \<Rightarrow> 'h GlobalSettingsComponent" where
  "onSave H result c = reload H (if result = Flag True then save c else c)"

text \<open>
  \<^verbatim>\<open>onSaveError_\<close> returns an observable, or raises the \<^verbatim>\<open>TypeError\<close> of the call
  \<^verbatim>\<open>err.error.indexOf(...)\<close>.
\<close>

definition onSaveError ::
  "HttpErrorResponse option \<Rightarrow> 'h GlobalSettingsComponent
     \<Rightarrow> failure + bool Observable \<times> 'h GlobalSettingsComponent" where
  "onSaveError err c =
     (case err of
        None \<Rightarrow> Inr (Of False, c)
      | Some e \<Rightarrow>
          (case valueIndexOf (error e) concurrentChangeErr of
             Inl t \<Rightarrow> Inl t
           | Inr i \<Rightarrow>
               if i \<noteq> - 1
               then Inr (AfterClosed, issue DialogOpen c)
               else Inr (Of False, c)))"

text \<open>
  The pipe of \<^verbatim>\<open>save\<close> when the service reports an error: \<^verbatim>\<open>catchError\<close> runs
  \<^verbatim>\<open>onSaveError_\<close> and subscribes to the observable it returns, and \<^verbatim>\<open>onSave_\<close> runs on the
  value that comes out, at once for \<^verbatim>\<open>of(false)\<close> and when the dialog is closed otherwise
  (see \<open>react\<close>). When \<^verbatim>\<open>onSaveError_\<close> raises, \<^verbatim>\<open>catchError\<close> passes the error on.
\<close>

definition saveFailed ::
  "'h SettingsHelperService \<Rightarrow> HttpErrorResponse option \<Rightarrow> 'h GlobalSettingsComponent
     \<Rightarrow> failure + 'h GlobalSettingsComponent" where
  "saveFailed H err c =
     (case onSaveError err c of
        Inl t \<Rightarrow> Inl t
      | Inr (Of r, c') \<Rightarrow> Inr (onSave H (Flag r) c')
      | Inr (AfterClosed, c') \<Rightarrow> Inr c')"

text \<open>
  One line of \<^verbatim>\<open>onLoad_\<close>: the control \<open>k\<close> is given the value of a property of the
  component's settings, with \<^verbatim>\<open>{emitEvent: false}\<close>.
\<close>

definition fill ::
  "'h SettingsHelperService \<Rightarrow> Controls \<Rightarrow> (GlobalSettings \<Rightarrow> jsval option)
     \<Rightarrow> 'h GlobalSettingsComponent \<Rightarrow> 'h GlobalSettingsComponent" where
  "fill H k p c = setValue H k (property (p (settings c))) False c"

definition onLoad ::
  "'h SettingsHelperService \<Rightarrow> 'h GlobalSettingsComponent \<Rightarrow> 'h GlobalSettingsComponent" where
  "onLoad H c =
     fill H DisableAccessDeniedNotification disableAccessDeniedNotifications
       (fill H ResourceAutorefreshInterval resourceAutoRefreshTimeInterval
          (fill H LogsAutorefreshInterval logsAutoRefreshTimeInterval
             (fill H ClusterName clusterName
                (fill H LabelsLimit labelsLimit
                   (fill H ItemsPerPage itemsPerPage
                      (helper_assign H (externalSettings c)
                         (c\<lparr>settings := externalSettings c\<rparr>)))))))"

definition onLoadError :: "'h GlobalSettingsComponent \<Rightarrow> 'h GlobalSettingsComponent" where
  "onLoadError c = c\<lparr>hasLoadError := True\<rparr>"

text \<open>
  The state of the component after its construction and \<^verbatim>\<open>ngOnInit\<close>: the form is built,
  the first load is requested, and the two subscriptions are made.
\<close>

definition initialForm :: "NamespaceControls \<Rightarrow> GlobalSettingsService \<Rightarrow> Controls \<Rightarrow> jsval" where
  "initialForm nc svc k =
     (case k of
        ClusterName \<Rightarrow> JStr []
      | ItemsPerPage \<Rightarrow> JNum 0
      | LabelsLimit \<Rightarrow> JNum 0
      | LogsAutorefreshInterval \<Rightarrow> JNum 0
      | ResourceAutorefreshInterval \<Rightarrow> JNum 0
      | DisableAccessDeniedNotification \<Rightarrow> JBool False
      | NamespaceSettings \<Rightarrow>
          JObj [(DefaultNamespace nc, getDefaultNamespace svc),
                (FallbackList nc, getNamespaceFallbackList svc)])"

definition ngOnInit ::
  "'h SettingsHelperService \<Rightarrow> NamespaceControls \<Rightarrow> GlobalSettingsService \<Rightarrow> 'h
     \<Rightarrow> 'h GlobalSettingsComponent" where
  "ngOnInit H nc svc h =
     announce (replay H h)
       (load \<lparr>settings = empty_settings, hasLoadError = False, form = initialForm nc svc,
              settingsService = svc, settingsHelperService = h, calls = []\<rparr>)"

section \<open>Events\<close>

text \<open>
  What happens to the component after \<^verbatim>\<open>ngOnInit\<close>: the user clicks save or reload or
  edits a control, the settings service answers a \<^verbatim>\<open>canI\<close>, a load (with the values it
  now holds) or a save, or the user closes the conflict dialog (\<open>None\<close>: without an
  answer). \<open>react\<close> runs the callbacks the source has subscribed for the event:
  \<^verbatim>\<open>canI => (this.hasLoadError = !canI)\<close> for \<^verbatim>\<open>canI\<close>; \<^verbatim>\<open>onLoad_\<close> and \<^verbatim>\<open>onLoadError_\<close>
  for a load; for a save the pipe of \<^verbatim>\<open>save\<close>, that is the \<^verbatim>\<open>tap\<close> on success,
  \<^verbatim>\<open>onSaveError_\<close> on failure, and \<^verbatim>\<open>onSave_\<close> on the first value that comes out. An
  error that \<^verbatim>\<open>onSaveError_\<close> raises reaches the subscription of \<^verbatim>\<open>save\<close>, which has no
  error callback: no method of the component runs, and its state stays as it is.
\<close>

datatype event =
    ClickSave
  | ClickReload
  | FormEdited Controls jsval
  | CanIReply bool
  | LoadSucceeded GlobalSettingsService
  | LoadFailed
  | SaveSucceeded GlobalSettings
  | SaveFailed "HttpErrorResponse option"
  | DialogClosed "bool option"

fun react ::
  "'h SettingsHelperService \<Rightarrow> event \<Rightarrow> 'h GlobalSettingsComponent
     \<Rightarrow> 'h GlobalSettingsComponent" where
  "react H ClickSave c = save c"
| "react H ClickReload c = reload H c"
| "react H (FormEdited k v) c = valueChanged H k v c"
| "react H (CanIReply canI) c = c\<lparr>hasLoadError := \<not> canI\<rparr>"
| "react H (LoadSucceeded svc) c = onLoad H (c\<lparr>settingsService := svc\<rparr>)"
| "react H LoadFailed c = onLoadError c"
| "react H (SaveSucceeded v) c = onSave H (Saved v) (saveTap c)"
| "react H (SaveFailed err) c =
     (case saveFailed H err c of Inl t \<Rightarrow> c | Inr c' \<Rightarrow> c')"
| "react H (DialogClosed r) c =
     onSave H (case r of None \<Rightarrow> Undefined | Some b \<Rightarrow> Flag b) c"

definition run ::
  "'h SettingsHelperService \<Rightarrow> event list \<Rightarrow> 'h GlobalSettingsComponent
     \<Rightarrow> 'h GlobalSettingsComponent" where
  "run H es c = fold (react H) es c"

text \<open>The requests of one \<^verbatim>\<open>reload\<close>, in order.\<close>

definition reloadCalls :: "call list" where
  "reloadCalls =
     [FormReset, HelperAssign (formSettings (\<lambda>k. JNull)), HelperReset, ServiceCanI, ServiceLoad]"

section \<open>Notions used by the properties\<close>

text \<open>
  The error of a failed save reports a concurrent change: there is an error, its body is a
  text, and the text contains the marker as a substring.
\<close>

definition conflict :: "HttpErrorResponse option \<Rightarrow> bool" where
  "conflict err =
     (case err of
        None \<Rightarrow> False
      | Some e \<Rightarrow> (case error e of JStr s \<Rightarrow> sublist concurrentChangeErr s | _ \<Rightarrow> False))"

text \<open>The error is absent, or its body is a text.\<close>

definition textError :: "HttpErrorResponse option \<Rightarrow> bool" where
  "textError err =
     (case err of
        None \<Rightarrow> True
      | Some e \<Rightarrow> (case error e of JStr s \<Rightarrow> True | _ \<Rightarrow> False))"

text \<open>The number of save requests in a list of requests.\<close>

definition saveRequests :: "call list \<Rightarrow> nat" where
  "saveRequests tr =
     length (filter (\<lambda>x. case x of ServiceSave s \<Rightarrow> True | _ \<Rightarrow> False) tr)"

text \<open>The request \<open>x\<close> is made before the first request \<open>y\<close>.\<close>

definition firesBefore :: "call \<Rightarrow> call \<Rightarrow> call list \<Rightarrow> bool" where
  "firesBefore x y tr = (x \<in> set (takeWhile (\<lambda>z. z \<noteq> y) tr))"

section \<open>Example states\<close>

definition exampleService :: GlobalSettingsService where
  "exampleService =
     \<lparr>getItemsPerPage = JNum 10, getLabelsLimit = JNum 3, getClusterName = JStr ''dev'',
      getLogsAutoRefreshTimeInterval = JNum 5, getResourceAutoRefreshTimeInterval = JNum 5,
      getDisableAccessDeniedNotifications = JBool False,
      getDefaultNamespace = JStr ''default'',
      getNamespaceFallbackList = JArr [JStr ''default''], serviceInitialized = True\<rparr>"

definition exampleNames :: NamespaceControls where
  "exampleNames = \<lparr>DefaultNamespace = ''defaultNamespace'', FallbackList = ''fallbackList''\<rparr>"

text \<open>The component after \<^verbatim>\<open>ngOnInit\<close>, with the helper of the spec.\<close>

definition started :: "GlobalSettings GlobalSettingsComponent" where
  "started = ngOnInit mirror_helper exampleNames exampleService empty_settings"

text \<open>... after the service has answered the first \<^verbatim>\<open>canI\<close> and the first load.\<close>

definition loaded :: "GlobalSettings GlobalSettingsComponent" where
  "loaded = run mirror_helper [CanIReply True, LoadSucceeded exampleService] started"

text \<open>... after the user has then changed the number of items per page to 25.\<close>

definition edited :: "GlobalSettings GlobalSettingsComponent" where
  "edited = react mirror_helper (FormEdited ItemsPerPage (JNum 25)) loaded"

definition conflictError :: HttpErrorResponse where
  "conflictError = \<lparr>error = JStr ''error: settings changed since last reload''\<rparr>"

definition otherError :: HttpErrorResponse where
  "otherError = \<lparr>error = JStr ''permission denied''\<rparr>"

text \<open>The error of a reply without a body, and the error of a network failure.\<close>

definition emptyBodyError :: HttpErrorResponse where
  "emptyBodyError = \<lparr>error = JNull\<rparr>"

definition networkError :: HttpErrorResponse where
  "networkError = \<lparr>error = JObj [(''isTrusted'', JBool True), (''type'', JStr ''error'')]\<rparr>"

text \<open>
  The component with the merging helper, after \<^verbatim>\<open>ngOnInit\<close> and the answers to the first
  \<^verbatim>\<open>canI\<close> and the first load.
\<close>

definition loadedMerging :: "GlobalSettings GlobalSettingsComponent" where
  "loadedMerging =
     run merging_helper [CanIReply True, LoadSucceeded exampleService]
       (ngOnInit merging_helper exampleNames exampleService empty_settings)"

section \<open>Basic facts\<close>

lemma announce_eq: "announce out c = c\<lparr>settings := last (settings c # out)\<rparr>"
  by (induction out arbitrary: c) (simp_all add: announce_def)

lemma indexOfFrom_none: "indexOfFrom s p i = - 1 \<longleftrightarrow> \<not> sublist p s"
  by (induction s arbitrary: i) (auto simp: sublist_Cons_right)

lemma indexOf_found: "indexOf s p \<noteq> - 1 \<longleftrightarrow> sublist p s"
  by (simp add: indexOf_def indexOfFrom_none)

lemmas component_defs =
  issue_def helper_assign_def helper_reset_def onFormChange_def valueChanged_def
  setValue_def form_reset_def load_def reload_def save_def saveTap_def onSave_def fill_def
  onLoad_def onLoadError_def announce_eq

lemmas example_defs =
  exampleService_def exampleNames_def started_def loaded_def edited_def ngOnInit_def
  run_def mirror_helper_def empty_settings_def externalSettings_def formSettings_def
  property_def

lemma calls_reload: "calls (reload H c) = calls c @ reloadCalls"
  by (simp add: component_defs reloadCalls_def)

lemma issued_reload: "issued c (reload H c) = reloadCalls"
  by (simp add: issued_def calls_reload)

lemma conflict_conflictError: "conflict (Some conflictError)"
  by (simp add: conflict_def conflictError_def concurrentChangeErr_def sublist_Cons_right)

lemma not_conflict_otherError: "\<not> conflict (Some otherError)"
  by (simp add: conflict_def otherError_def concurrentChangeErr_def sublist_Cons_right)

lemma not_conflict_emptyBodyError: "\<not> conflict (Some emptyBodyError)"
  by (simp add: conflict_def emptyBodyError_def)

lemma not_conflict_networkError: "\<not> conflict (Some networkError)"
  by (simp add: conflict_def networkError_def)

lemma settings_loaded: "settings loaded = externalSettings loaded"
  by (simp add: example_defs component_defs)

lemma hasLoadError_loaded: "\<not> hasLoadError loaded"
  by (simp add: example_defs component_defs)

lemma hasLoadError_edited: "\<not> hasLoadError edited"
  by (simp add: example_defs component_defs)

lemma settings_edited: "settings edited \<noteq> externalSettings edited"
  by (simp add: example_defs component_defs)

lemma not_canSave_loaded: "\<not> canSave loaded"
  by (simp add: canSave_def isEqual_def settings_loaded)

lemma canSave_edited: "canSave edited"
  by (simp add: canSave_def isEqual_def settings_edited hasLoadError_edited)

lemma settings_eq_external:
  "settings c = externalSettings c \<longleftrightarrow>
     itemsPerPage (settings c) = Some (getItemsPerPage (settingsService c)) \<and>
     labelsLimit (settings c) = Some (getLabelsLimit (settingsService c)) \<and>
     clusterName (settings c) = Some (getClusterName (settingsService c)) \<and>
     logsAutoRefreshTimeInterval (settings c) =
       Some (getLogsAutoRefreshTimeInterval (settingsService c)) \<and>
     resourceAutoRefreshTimeInterval (settings c) =
       Some (getResourceAutoRefreshTimeInterval (settingsService c)) \<and>
     disableAccessDeniedNotifications (settings c) =
       Some (getDisableAccessDeniedNotifications (settingsService c)) \<and>
     defaultNamespace (settings c) = Some (getDefaultNamespace (settingsService c)) \<and>
     namespaceFallbackList (settings c) = Some (getNamespaceFallbackList (settingsService c))"
  by (cases "settings c") (auto simp: externalSettings_def)

lemma onSaveError_conflict:
  "conflict err \<Longrightarrow> onSaveError err c = Inr (AfterClosed, issue DialogOpen c)"
  by (cases err)
     (auto simp: onSaveError_def conflict_def valueIndexOf_def indexOf_found split: jsval.splits)

lemma onSaveError_no_conflict:
  "textError err \<Longrightarrow> \<not> conflict err \<Longrightarrow> onSaveError err c = Inr (Of False, c)"
  by (cases err)
     (auto simp: onSaveError_def conflict_def textError_def valueIndexOf_def indexOf_found
        split: jsval.splits)

lemma onSaveError_emptyBodyError: "onSaveError (Some emptyBodyError) c = Inl TypeError"
  by (simp add: onSaveError_def valueIndexOf_def emptyBodyError_def)

lemma onSaveError_networkError: "onSaveError (Some networkError) c = Inl TypeError"
  by (simp add: onSaveError_def valueIndexOf_def networkError_def)

lemma calls_ne_reload: "c \<noteq> reload H c"
proof
  assume "c = reload H c"
  then have "calls c = calls (reload H c)"
    by simp
  then show False
    by (simp add: calls_reload reloadCalls_def)
qed

lemma calls_saveTap:
  "calls (saveTap c) =
     calls c @ [ServiceCanI, ServiceLoad, TitleUpdate, ServiceOnSettingsUpdateNext]"
  by (simp add: saveTap_def load_def issue_def)

lemma settings_onLoad:
  "settings (onLoad H c) =
     last (externalSettings c # snd (assign H (externalSettings c) (settingsHelperService c)))"
  by (simp add: component_defs)

lemma externalSettings_onLoad: "externalSettings (onLoad H c) = externalSettings c"
  by (simp add: externalSettings_def component_defs)

lemma saveRequests_ServiceSave: "saveRequests (ServiceSave s # tr) = Suc (saveRequests tr)"
  by (simp add: saveRequests_def)

lemma saveRequests_reloadCalls: "saveRequests reloadCalls = 0"
  by (simp add: saveRequests_def reloadCalls_def)

lemma mirror_helper_announces: "\<forall>s h. snd (assign mirror_helper s h) = [s]"
  by (simp add: mirror_helper_def)

text \<open>
  A \<^verbatim>\<open>setValue\<close> that does announce the change runs \<^verbatim>\<open>onFormChange_\<close>, which hands the
  six values of the form to the helper.
\<close>

lemma issued_setValue_emitting:
  "issued c (setValue H k v True c) =
     [FormSetValue k v True, HelperAssign (formSettings ((form c)(k := v)))]"
  by (simp add: issued_def component_defs)

text \<open>
  With the helper of the spec, the settings of the component just after \<^verbatim>\<open>reload\<close> are
  the six \<^verbatim>\<open>null\<close> values of the form that was reset, which differ from the external
  settings whatever those are: \<^verbatim>\<open>canSave\<close> then depends on the load-error flag alone.
\<close>

lemma canSave_reload_mirror: "canSave (reload mirror_helper c) = (\<not> hasLoadError c)"
  by (simp add: canSave_def isEqual_def component_defs mirror_helper_def externalSettings_def
      formSettings_def)

section \<open>When the settings can be saved\<close>

text \<open>
  C1. \<^verbatim>\<open>canSave\<close> returns true if and only if the component's settings differ, under deep
  equality, from the settings reconstructed from the settings service, and the load-error
  flag is false; in every other case it returns false. The two objects are deeply equal
  exactly when the component's settings have each of the eight properties, with the value
  the accessor of the service returns.
\<close>

theorem canSave_iff:
  "(canSave c \<longleftrightarrow> \<not> isEqual (settings c) (externalSettings c) \<and> \<not> hasLoadError c) \<and>
   (isEqual (settings c) (externalSettings c) \<longleftrightarrow>
      itemsPerPage (settings c) = Some (getItemsPerPage (settingsService c)) \<and>
      labelsLimit (settings c) = Some (getLabelsLimit (settingsService c)) \<and>
      clusterName (settings c) = Some (getClusterName (settingsService c)) \<and>
      logsAutoRefreshTimeInterval (settings c) =
        Some (getLogsAutoRefreshTimeInterval (settingsService c)) \<and>
      resourceAutoRefreshTimeInterval (settings c) =
        Some (getResourceAutoRefreshTimeInterval (settingsService c)) \<and>
      disableAccessDeniedNotifications (settings c) =
        Some (getDisableAccessDeniedNotifications (settingsService c)) \<and>
      defaultNamespace (settings c) = Some (getDefaultNamespace (settingsService c)) \<and>
      namespaceFallbackList (settings c) = Some (getNamespaceFallbackList (settingsService c)))"
  unfolding isEqual_def using settings_eq_external [of c] by (simp add: canSave_def isEqual_def)

theorem canSave_iff_witness:
  "canSave edited \<and> \<not> isEqual (settings edited) (externalSettings edited) \<and>
   \<not> hasLoadError edited \<and>
   \<not> canSave loaded \<and> isEqual (settings loaded) (externalSettings loaded) \<and>
   \<not> canSave (react mirror_helper LoadFailed edited)"
  using canSave_iff [of edited] canSave_iff [of loaded]
    canSave_iff [of "react mirror_helper LoadFailed edited"]
  by (simp add: isEqual_def settings_loaded settings_edited hasLoadError_edited onLoadError_def)

section \<open>Errors of a save\<close>

text \<open>
  For an error whose body is a text, and for an absent error, \<^verbatim>\<open>onSaveError_\<close> opens the
  conflict dialog exactly when the text contains the marker, and otherwise yields
  \<^verbatim>\<open>of(false)\<close> without a request; after a text that does not contain the marker the
  component is reloaded and no save is requested.
\<close>

lemma onSaveError_text:
  "textError err \<Longrightarrow>
   onSaveError err c =
     Inr (if conflict err then (AfterClosed, issue DialogOpen c) else (Of False, c))"
  by (simp add: onSaveError_conflict onSaveError_no_conflict)

lemma text_error_reloads:
  assumes "textError err" and "\<not> conflict err"
  shows "react H (SaveFailed err) c = reload H c"
proof -
  have "onSaveError err c = Inr (Of False, c)"
    using assms by (rule onSaveError_no_conflict)
  then have "saveFailed H err c = Inr (onSave H (Flag False) c)"
    by (simp add: saveFailed_def)
  then show ?thesis
    by (simp add: onSave_def)
qed

text \<open>
  C2. For every error of a save, the conflict dialog is opened if and only if the body of
  the error contains \<^verbatim>\<open>settings changed since last reload\<close>, and for an error that does
  not contain it \<^verbatim>\<open>onSaveError_\<close> yields \<^verbatim>\<open>of(false)\<close> and opens no dialog. The code does
  not do this for every error: for the error of a reply without a body, which does not
  contain the marker, and for the error of a network failure, \<^verbatim>\<open>onSaveError_\<close> opens no
  dialog but does not yield \<^verbatim>\<open>of(false)\<close> either; it raises a \<^verbatim>\<open>TypeError\<close>.
\<close>

theorem onSaveError_raises:
  "\<not> conflict (Some emptyBodyError) \<and>
   onSaveError (Some emptyBodyError) c = Inl TypeError \<and>
   onSaveError (Some emptyBodyError) c \<noteq> Inr (Of False, c) \<and>
   \<not> conflict (Some networkError) \<and>
   onSaveError (Some networkError) c = Inl TypeError \<and>
   onSaveError (Some networkError) c \<noteq> Inr (Of False, c)"
  by (simp add: not_conflict_emptyBodyError not_conflict_networkError
      onSaveError_emptyBodyError onSaveError_networkError)

text \<open>
  C6. For every error of a save that does not match the marker, no second save is
  attempted and the component is reloaded: \<^verbatim>\<open>onSaveError_\<close> yields \<^verbatim>\<open>of(false)\<close>, on which
  \<^verbatim>\<open>onSave_\<close> skips the save and calls \<^verbatim>\<open>reload\<close> only. The code does not do this for
  the error of a reply without a body: the \<^verbatim>\<open>TypeError\<close> that \<^verbatim>\<open>onSaveError_\<close> raises ends
  the pipe of \<^verbatim>\<open>save\<close>, \<^verbatim>\<open>onSave_\<close> does not run, no request is made and the component is
  not reloaded.
\<close>

theorem generic_error_not_reloaded:
  "\<not> conflict (Some emptyBodyError) \<and>
   saveFailed H (Some emptyBodyError) c = Inl TypeError \<and>
   react H (SaveFailed (Some emptyBodyError)) c = c \<and>
   issued c (react H (SaveFailed (Some emptyBodyError)) c) = [] \<and>
   react H (SaveFailed (Some emptyBodyError)) c \<noteq> reload H c"
proof -
  have raised: "saveFailed H (Some emptyBodyError) c = Inl TypeError"
    by (simp add: saveFailed_def onSaveError_emptyBodyError)
  then have same: "react H (SaveFailed (Some emptyBodyError)) c = c"
    by simp
  then have "issued c (react H (SaveFailed (Some emptyBodyError)) c) = []"
    by (simp add: issued_def)
  moreover have "react H (SaveFailed (Some emptyBodyError)) c \<noteq> reload H c"
    using same calls_ne_reload [of c H] by simp
  ultimately show ?thesis
    using raised same not_conflict_emptyBodyError by simp
qed

section \<open>What follows a save\<close>

text \<open>
  C3. When the conflict dialog is closed with \<^verbatim>\<open>true\<close>, \<^verbatim>\<open>save\<close> is called again exactly
  once, with the settings the component has at that moment, and then \<^verbatim>\<open>reload\<close> is
  called. When the dialog is declined, or the error was a generic one (the result is
  \<^verbatim>\<open>false\<close>), \<^verbatim>\<open>save\<close> is not called again and only \<^verbatim>\<open>reload\<close> is.
\<close>

theorem onSave_retry:
  "react H (DialogClosed (Some True)) c = reload H (save c) \<and>
   issued c (react H (DialogClosed (Some True)) c) = ServiceSave (settings c) # reloadCalls \<and>
   saveRequests (issued c (react H (DialogClosed (Some True)) c)) = 1 \<and>
   react H (DialogClosed (Some False)) c = reload H c \<and>
   onSave H (Flag False) c = reload H c \<and>
   issued c (onSave H (Flag False) c) = reloadCalls \<and>
   saveRequests (issued c (onSave H (Flag False) c)) = 0"
  by (simp add: onSave_def issued_def calls_reload save_def issue_def saveRequests_reloadCalls
      saveRequests_ServiceSave)

theorem onSave_retry_witness:
  "issued edited (react mirror_helper (DialogClosed (Some True)) edited) =
     ServiceSave (settings edited) # reloadCalls \<and>
   issued edited (react mirror_helper (DialogClosed (Some False)) edited) = reloadCalls \<and>
   issued edited
     (run mirror_helper
        [ClickSave, SaveFailed (Some conflictError), DialogClosed (Some True)] edited) =
     [ServiceSave (settings edited), DialogOpen, ServiceSave (settings edited)] @ reloadCalls"
  using onSave_retry [of mirror_helper edited]
    onSave_retry [of mirror_helper "issue DialogOpen (save edited)"]
    onSaveError_conflict [OF conflict_conflictError, of "save edited"]
  by (simp add: onSave_def run_def issued_def calls_reload save_def issue_def saveFailed_def)

text \<open>
  C4, as stated: after every successful save, the title-update hook and the
  settings-updated notification fire before the next load request is issued to the
  settings service. This fails: the callback of a successful save calls \<^verbatim>\<open>load_\<close> first.
  When the user has edited the form and clicked save, and the service reports success,
  neither hook comes before the first load request.
\<close>

theorem hooks_before_load_counterexample:
  "\<not> firesBefore TitleUpdate ServiceLoad
       (issued (save edited)
          (react mirror_helper (SaveSucceeded (settings edited)) (save edited))) \<and>
   \<not> firesBefore ServiceOnSettingsUpdateNext ServiceLoad
       (issued (save edited)
          (react mirror_helper (SaveSucceeded (settings edited)) (save edited)))"
  by (simp add: firesBefore_def issued_def onSave_def calls_reload saveTap_def load_def issue_def)

text \<open>
  C4, amended: after every successful save the component first issues the load request
  (\<^verbatim>\<open>canI\<close> and \<^verbatim>\<open>load\<close>), then fires the title-update hook and then the settings-updated
  notification, and then calls \<^verbatim>\<open>reload\<close>, which issues a further load request. The two
  hooks fire after the first load request that follows the save and before the load
  request of the reload.
\<close>

theorem successful_save_order:
  "issued c (react H (SaveSucceeded v) c) =
     [ServiceCanI, ServiceLoad, TitleUpdate, ServiceOnSettingsUpdateNext] @ reloadCalls"
proof -
  have "react H (SaveSucceeded v) c = reload H (saveTap c)"
    by (simp add: onSave_def)
  then have "calls (react H (SaveSucceeded v) c) = calls (saveTap c) @ reloadCalls"
    by (simp only: calls_reload)
  then show ?thesis
    by (simp add: issued_def calls_saveTap)
qed

theorem successful_save_order_witness:
  "issued (save edited) (react mirror_helper (SaveSucceeded (settings edited)) (save edited)) =
     [ServiceCanI, ServiceLoad, TitleUpdate, ServiceOnSettingsUpdateNext,
      FormReset, HelperAssign (formSettings (\<lambda>k. JNull)), HelperReset,
      ServiceCanI, ServiceLoad]"
  using successful_save_order [of "save edited" mirror_helper "settings edited"]
  by (simp add: reloadCalls_def)

text \<open>
  Whatever result it is given, \<^verbatim>\<open>onSave_\<close> ends with \<^verbatim>\<open>reload\<close>: after a successful save
  (where a load was already requested in the success callback), after the conflict
  dialog is closed, and after an error with a text that does not contain the marker
  (\<open>text_error_reloads\<close>), the requests of a reload are the last ones made.
\<close>

lemma onSave_reloads:
  "issued c (onSave H r c) =
     (if r = Flag True then [ServiceSave (settings c)] else []) @ reloadCalls"
  by (simp add: onSave_def issued_def calls_reload save_def issue_def)

lemma success_reloads: "react H (SaveSucceeded v) c = reload H (saveTap c)"
  by (simp add: onSave_def)

lemma dialog_closed_reloads:
  "react H (DialogClosed r) c = reload H (if r = Some True then save c else c)"
  by (cases r) (simp_all add: onSave_def)

text \<open>
  C10. Every outcome that ends a save attempt calls \<^verbatim>\<open>reload\<close>, also a generic error.
  The code does not do this when the generic error is the error of a network failure or
  of a reply without a body: the user clicks save, the service reports the error,
  \<^verbatim>\<open>onSaveError_\<close> raises a \<^verbatim>\<open>TypeError\<close>, and the attempt ends there. The save request is
  the only request made, \<^verbatim>\<open>onSave_\<close> and \<^verbatim>\<open>reload\<close> do not run.
\<close>

theorem save_attempt_without_reload:
  "run H [ClickSave, SaveFailed (Some networkError)] c = save c \<and>
   issued c (run H [ClickSave, SaveFailed (Some networkError)] c) =
     [ServiceSave (settings c)] \<and>
   \<not> suffix reloadCalls (issued c (run H [ClickSave, SaveFailed (Some networkError)] c)) \<and>
   run H [ClickSave, SaveFailed (Some emptyBodyError)] c = save c \<and>
   \<not> suffix reloadCalls (issued c (run H [ClickSave, SaveFailed (Some emptyBodyError)] c))"
proof -
  have network: "run H [ClickSave, SaveFailed (Some networkError)] c = save c"
    by (simp add: run_def saveFailed_def onSaveError_networkError)
  have empty: "run H [ClickSave, SaveFailed (Some emptyBodyError)] c = save c"
    by (simp add: run_def saveFailed_def onSaveError_emptyBodyError)
  have only: "issued c (save c) = [ServiceSave (settings c)]"
    by (simp add: issued_def save_def issue_def)
  then have "\<not> suffix reloadCalls (issued c (save c))"
    by (simp add: reloadCalls_def suffix_def)
  with network empty only show ?thesis
    by simp
qed

section \<open>Loading and reloading\<close>

text \<open>
  C7. A failed load and a denied permission each set \<^verbatim>\<open>hasLoadError\<close> to true, and whenever
  \<^verbatim>\<open>hasLoadError\<close> is true \<^verbatim>\<open>canSave\<close> returns false, whether the settings differ or not.
\<close>

theorem load_error_blocks_save:
  "hasLoadError (react H LoadFailed c) \<and>
   hasLoadError (react H (CanIReply False) c) \<and>
   (hasLoadError c \<longrightarrow> \<not> canSave c)"
proof (intro conjI impI)
  show "hasLoadError (react H LoadFailed c)"
    by (simp add: onLoadError_def)
  show "hasLoadError (react H (CanIReply False) c)"
    by simp
  show "\<not> canSave c" if "hasLoadError c"
    using that by (simp add: canSave_def)
qed

theorem load_error_blocks_save_witness:
  "canSave edited \<and>
   hasLoadError (react mirror_helper LoadFailed edited) \<and>
   \<not> canSave (react mirror_helper LoadFailed edited) \<and>
   hasLoadError (react mirror_helper (CanIReply False) edited) \<and>
   \<not> canSave (react mirror_helper (CanIReply False) edited)"
  using load_error_blocks_save [of mirror_helper edited]
    load_error_blocks_save [of mirror_helper "react mirror_helper LoadFailed edited"]
    load_error_blocks_save [of mirror_helper "react mirror_helper (CanIReply False) edited"]
  by (simp add: canSave_edited)

text \<open>
  C8. On a successful load, filling the form from the loaded settings does not announce a
  form change: each of the six \<^verbatim>\<open>setValue\<close> calls of \<^verbatim>\<open>onLoad_\<close> passes
  \<^verbatim>\<open>emitEvent: false\<close>, so \<^verbatim>\<open>onFormChange_\<close> does not run. The only assignment to the helper
  is the one \<^verbatim>\<open>onLoad_\<close> makes itself, with the external settings, and the helper state
  after \<^verbatim>\<open>onLoad_\<close> is the state that assignment left. The six controls hold the values
  of the component's settings, the namespace control is left as it was.
\<close>

theorem onLoad_silent:
  "issued c (onLoad H c) =
     [HelperAssign (externalSettings c),
      FormSetValue ItemsPerPage (property (itemsPerPage (settings (onLoad H c)))) False,
      FormSetValue LabelsLimit (property (labelsLimit (settings (onLoad H c)))) False,
      FormSetValue ClusterName (property (clusterName (settings (onLoad H c)))) False,
      FormSetValue LogsAutorefreshInterval
        (property (logsAutoRefreshTimeInterval (settings (onLoad H c)))) False,
      FormSetValue ResourceAutorefreshInterval
        (property (resourceAutoRefreshTimeInterval (settings (onLoad H c)))) False,
      FormSetValue DisableAccessDeniedNotification
        (property (disableAccessDeniedNotifications (settings (onLoad H c)))) False] \<and>
   settingsHelperService (onLoad H c) =
     fst (assign H (externalSettings c) (settingsHelperService c)) \<and>
   settings (onLoad H c) =
     last (externalSettings c # snd (assign H (externalSettings c) (settingsHelperService c))) \<and>
   form (onLoad H c) =
     (form c)
       (ItemsPerPage := property (itemsPerPage (settings (onLoad H c))),
        LabelsLimit := property (labelsLimit (settings (onLoad H c))),
        ClusterName := property (clusterName (settings (onLoad H c))),
        LogsAutorefreshInterval :=
          property (logsAutoRefreshTimeInterval (settings (onLoad H c))),
        ResourceAutorefreshInterval :=
          property (resourceAutoRefreshTimeInterval (settings (onLoad H c))),
        DisableAccessDeniedNotification :=
          property (disableAccessDeniedNotifications (settings (onLoad H c))))"
  by (simp add: issued_def component_defs)

theorem onLoad_silent_witness:
  "issued started (onLoad mirror_helper started) =
     [HelperAssign (externalSettings started),
      FormSetValue ItemsPerPage (JNum 10) False,
      FormSetValue LabelsLimit (JNum 3) False,
      FormSetValue ClusterName (JStr ''dev'') False,
      FormSetValue LogsAutorefreshInterval (JNum 5) False,
      FormSetValue ResourceAutorefreshInterval (JNum 5) False,
      FormSetValue DisableAccessDeniedNotification (JBool False) False] \<and>
   settingsHelperService (onLoad mirror_helper started) = externalSettings started \<and>
   form (onLoad mirror_helper started) ItemsPerPage = JNum 10 \<and>
   form started ItemsPerPage = JNum 0"
  using onLoad_silent [of started mirror_helper]
  by (simp add: example_defs announce_eq load_def issue_def initialForm_def)

text \<open>
  C5, as stated: for every state of the component, \<^verbatim>\<open>canSave\<close> returns false immediately
  after \<^verbatim>\<open>reload\<close> (the form reset, the helper reset and the load requested). This fails:
  \<^verbatim>\<open>reload\<close> only requests the load, the reply comes later. When the user has edited the
  form and clicks reload, \<^verbatim>\<open>canSave\<close> still returns true when \<^verbatim>\<open>reload\<close> returns.
\<close>

theorem canSave_after_reload_counterexample: "canSave (reload mirror_helper edited)"
  by (simp add: canSave_reload_mirror hasLoadError_edited)

text \<open>
  C5, amended: for every state of the component, \<^verbatim>\<open>canSave\<close> returns false once the load
  requested by \<^verbatim>\<open>reload\<close> has been answered: when it succeeds, right after \<^verbatim>\<open>onLoad_\<close>, and
  when it fails, right after \<^verbatim>\<open>onLoadError_\<close>. This holds with a helper that announces
  each settings object assigned to it as it is, which the helper of the spec does.
\<close>

theorem canSave_after_reload_answered:
  assumes "\<forall>s h. snd (assign H s h) = [s]"
  shows "\<not> canSave (react H (LoadSucceeded svc) (reload H c)) \<and>
    \<not> canSave (react H LoadFailed (reload H c))"
proof
  let ?c = "(reload H c)\<lparr>settingsService := svc\<rparr>"
  have "settings (onLoad H ?c) = externalSettings ?c"
    using assms by (simp add: settings_onLoad)
  then have "isEqual (settings (onLoad H ?c)) (externalSettings (onLoad H ?c))"
    by (simp add: isEqual_def externalSettings_onLoad)
  then show "\<not> canSave (react H (LoadSucceeded svc) (reload H c))"
    by (simp add: canSave_def)
next
  have "hasLoadError (onLoadError (reload H c))"
    by (simp add: onLoadError_def)
  then show "\<not> canSave (react H LoadFailed (reload H c))"
    by (simp add: canSave_def)
qed

theorem canSave_after_reload_answered_witness:
  "(\<forall>s h. snd (assign mirror_helper s h) = [s]) \<and>
   canSave edited \<and>
   \<not> canSave (react mirror_helper (LoadSucceeded exampleService) (reload mirror_helper edited)) \<and>
   \<not> canSave (react mirror_helper LoadFailed (reload mirror_helper edited))"
  using mirror_helper_announces
    canSave_after_reload_answered [OF mirror_helper_announces, of exampleService edited]
  by (simp add: canSave_edited del: react.simps)

section \<open>Form changes\<close>

text \<open>
  C9, as stated: for every form change the object handed to the helper has six
  properties and not the two namespace properties, which the external settings always
  have; hence after any form change the component's settings differ from the external
  settings, also when the six shared properties are equal. The last step fails: the
  component's settings after the change are what the helper announces, not the object
  handed to it. With the merging helper, when the user changes the number of items per
  page and changes it back, the settings are equal to the external settings again.
\<close>

theorem form_change_equal_counterexample:
  "isEqual
     (settings
        (run merging_helper
           [FormEdited ItemsPerPage (JNum 25), FormEdited ItemsPerPage (JNum 10)]
           loadedMerging))
     (externalSettings
        (run merging_helper
           [FormEdited ItemsPerPage (JNum 25), FormEdited ItemsPerPage (JNum 10)]
           loadedMerging)) \<and>
   \<not> canSave
       (run merging_helper
          [FormEdited ItemsPerPage (JNum 25), FormEdited ItemsPerPage (JNum 10)]
          loadedMerging)"
  by (simp add: canSave_def isEqual_def loadedMerging_def merging_helper_def spread_def
      exampleService_def exampleNames_def ngOnInit_def run_def empty_settings_def
      externalSettings_def formSettings_def property_def component_defs)

text \<open>
  C9, amended: for every form change, the settings object handed to the helper has
  exactly the six properties \<^verbatim>\<open>itemsPerPage\<close>, \<^verbatim>\<open>clusterName\<close>,
  \<^verbatim>\<open>disableAccessDeniedNotifications\<close>, \<^verbatim>\<open>labelsLimit\<close>, \<^verbatim>\<open>logsAutoRefreshTimeInterval\<close> and
  \<^verbatim>\<open>resourceAutoRefreshTimeInterval\<close>, and never \<^verbatim>\<open>defaultNamespace\<close> or
  \<^verbatim>\<open>namespaceFallbackList\<close>, whereas the external settings always have these two; hence that
  object is never deeply equal to the external settings. The component's settings after
  the change are the last object the helper announces. When the helper announces the
  object handed to it, as it is, they differ from the external settings, also when the six
  shared properties are equal, and \<^verbatim>\<open>canSave\<close> returns true unless there is a load error.
\<close>

theorem form_change_differs:
  "issued c (onFormChange H c) = [HelperAssign (formSettings (form c))] \<and>
   itemsPerPage (formSettings (form c)) \<noteq> None \<and>
   clusterName (formSettings (form c)) \<noteq> None \<and>
   disableAccessDeniedNotifications (formSettings (form c)) \<noteq> None \<and>
   labelsLimit (formSettings (form c)) \<noteq> None \<and>
   logsAutoRefreshTimeInterval (formSettings (form c)) \<noteq> None \<and>
   resourceAutoRefreshTimeInterval (formSettings (form c)) \<noteq> None \<and>
   defaultNamespace (formSettings (form c)) = None \<and>
   namespaceFallbackList (formSettings (form c)) = None \<and>
   defaultNamespace (externalSettings c) \<noteq> None \<and>
   namespaceFallbackList (externalSettings c) \<noteq> None \<and>
   \<not> isEqual (formSettings (form c)) (externalSettings c) \<and>
   settings (onFormChange H c) =
     last (settings c # snd (assign H (formSettings (form c)) (settingsHelperService c))) \<and>
   (snd (assign H (formSettings (form c)) (settingsHelperService c)) = [formSettings (form c)]
      \<longrightarrow>
      \<not> isEqual (settings (onFormChange H c)) (externalSettings (onFormChange H c)) \<and>
      canSave (onFormChange H c) = (\<not> hasLoadError c))"
  by (simp add: issued_def component_defs canSave_def isEqual_def externalSettings_def
      formSettings_def)

theorem form_change_differs_witness:
  "snd (assign mirror_helper (formSettings (form loaded)) (settingsHelperService loaded)) =
     [formSettings (form loaded)] \<and>
   \<not> canSave loaded \<and>
   itemsPerPage (formSettings (form loaded)) = itemsPerPage (externalSettings loaded) \<and>
   canSave (onFormChange mirror_helper loaded)"
  using mirror_helper_announces not_canSave_loaded form_change_differs [of loaded mirror_helper]
  by (simp add: hasLoadError_loaded) (simp add: example_defs component_defs)

end
